theory Spec2Isabelle
  imports Complex_Main "HOL-Library.Word"
begin

unbundle bit_operations_syntax

section \<open>Guest thread state (src/xenia/cpu/thread_state.cc)\<close>

type_synonym u32 = "32 word"
type_synonym u64 = "64 word"
type_synonym u128 = "128 word"

subsection \<open>The register file\<close>

text \<open>
  Modelled from the spec: \<^verbatim>\<open>xe_ppc_state_t\<close> is declared in a header that is not
  among the sources. The spec lists its parts: the general-purpose register array,
  condition/status fields, floating-point and vector register storage, the
  guest-memory-base pointer and the two back-references. Host pointers are 64-bit
  addresses (the constructor casts the block pointer to \<^verbatim>\<open>uint64_t\<close>); registers hold raw
  bit patterns, so that the all-zero block is the all-zero record.
\<close>

record xe_ppc_state_t =
  cr :: u32
  fpscr :: u32
  r :: "u64 list"
  v :: "u128 list"
  f :: "u64 list"
  membase :: u64
  processor :: u64
  thread_state :: u64

definition zero_ppc_state :: xe_ppc_state_t where
  "zero_ppc_state =
     \<lparr>cr = 0, fpscr = 0, r = replicate 32 0, v = replicate 128 0, f = replicate 32 0,
      membase = 0, processor = 0, thread_state = 0\<rparr>"

subsection \<open>The collaborators: processor, guest heap, host allocator\<close>

text \<open>
  Modelled from the spec: the guest memory object (\<^verbatim>\<open>xenia/core/memory.h\<close>) and the
  Processor (\<^verbatim>\<open>xenia/cpu/processor.h\<close>) are not among the sources. A memory reference
  names the memory object and carries its guest-to-host translation base; the Processor
  is the shared object a context refers to, with its own host address and the guest
  memory it owns.
\<close>

record xe_memory_ref =
  memory_ptr :: u64
  mapping_base :: u64

record Processor =
  processor_ptr :: u64
  processor_memory :: xe_memory_ref

text \<open>What the external calls do is recorded, in call order.\<close>

datatype event =
    EvProcessorMemory
  | EvHeapAlloc u32 u32
  | EvMallocAligned u64
  | EvFreeAligned u64
  | EvHeapFree u32
  | EvMemoryRelease

text \<open>
  The host side of the emulator as the constructor and the destructor see it: the
  outstanding guest-heap allocations, the outstanding host blocks, the number of
  references held on the guest memory, the contents of host memory at each block address
  (a freshly allocated block holds whatever was there before), and the log of calls.
\<close>

record world =
  heap_live :: "u32 list"
  host_live :: "u64 list"
  memory_refs :: nat
  host_mem :: "u64 \<Rightarrow> xe_ppc_state_t"
  trace :: "event list"

text \<open>
  Modelled from the spec: the allocators choose their results, so the results are an
  input of the model. A guest address 0 and a null host pointer are the failure values
  of the two allocators.
\<close>

record allocator_answers =
  heap_answer :: u32
  malloc_answer :: u64

text \<open>
  Modelled from the spec: \<^verbatim>\<open>HostAllocator.AllocateAligned(size, alignment=16)\<close>, the
  interface behind \<^verbatim>\<open>xe_malloc_aligned\<close>, whose code is not among the sources. The
  allocator obtains a raw block and hands out the first address in it that is a multiple
  of 16; a null raw block is its failure, and so is the null result.
\<close>

definition AllocateAligned :: "u64 \<Rightarrow> u64" where
  "AllocateAligned raw = (if raw = 0 then 0 else (raw + 0xF) AND NOT 0xF)"

text \<open>
  Modelled from the spec: \<^verbatim>\<open>Processor::memory()\<close>, \<^verbatim>\<open>xe_memory_heap_alloc\<close>,
  \<^verbatim>\<open>xe_memory_heap_free\<close>, \<^verbatim>\<open>xe_memory_release\<close>, \<^verbatim>\<open>xe_memory_addr\<close>,
  \<^verbatim>\<open>xe_malloc_aligned\<close>, \<^verbatim>\<open>xe_free_aligned\<close> and \<^verbatim>\<open>xe_zero_struct\<close> are called by the
  sources and defined elsewhere. Following the spec's external interfaces:
  the guest heap allocates a range and returns its guest address or fails, and frees a
  range by its address; the host allocator hands out and takes back blocks; the context
  holds a reference on the processor's memory that teardown drops.
\<close>

definition Processor_memory :: "Processor \<Rightarrow> world \<Rightarrow> xe_memory_ref \<times> world" where
  "Processor_memory p w =
     (processor_memory p,
      w\<lparr>memory_refs := Suc (memory_refs w), trace := trace w @ [EvProcessorMemory]\<rparr>)"

definition xe_memory_heap_alloc ::
  "u32 \<Rightarrow> xe_memory_ref \<Rightarrow> u32 \<Rightarrow> u32 \<Rightarrow> u32 \<Rightarrow> world \<Rightarrow> u32 \<times> world" where
  "xe_memory_heap_alloc answer memory base_address nbytes flags w =
     (answer,
      w\<lparr>heap_live := (if answer = 0 then heap_live w else answer # heap_live w),
        trace := trace w @ [EvHeapAlloc nbytes answer]\<rparr>)"

definition xe_malloc_aligned :: "u64 \<Rightarrow> world \<Rightarrow> u64 \<times> world" where
  "xe_malloc_aligned answer w =
     (answer,
      w\<lparr>host_live := (if answer = 0 then host_live w else answer # host_live w),
        trace := trace w @ [EvMallocAligned answer]\<rparr>)"

definition xe_zero_struct :: "u64 \<Rightarrow> world \<Rightarrow> world" where
  "xe_zero_struct p w = w\<lparr>host_mem := (host_mem w)(p := zero_ppc_state)\<rparr>"

definition xe_memory_addr :: "xe_memory_ref \<Rightarrow> u32 \<Rightarrow> u64" where
  "xe_memory_addr memory guest_address = mapping_base memory + ucast guest_address"

definition xe_free_aligned :: "u64 \<Rightarrow> world \<Rightarrow> world" where
  "xe_free_aligned p w =
     w\<lparr>host_live := remove1 p (host_live w), trace := trace w @ [EvFreeAligned p]\<rparr>"

definition xe_memory_heap_free :: "xe_memory_ref \<Rightarrow> u32 \<Rightarrow> u32 \<Rightarrow> world \<Rightarrow> world" where
  "xe_memory_heap_free memory address flags w =
     w\<lparr>heap_live := remove1 address (heap_live w), trace := trace w @ [EvHeapFree address]\<rparr>"

definition xe_memory_release :: "xe_memory_ref \<Rightarrow> world \<Rightarrow> world" where
  "xe_memory_release memory w =
     w\<lparr>memory_refs := memory_refs w - 1, trace := trace w @ [EvMemoryRelease]\<rparr>"

subsection \<open>The context\<close>

text \<open>The members of the class; a member \<^verbatim>\<open>x_\<close> of the source is the field \<open>ts_x\<close>.\<close>

record ThreadState =
  ts_stack_size :: u32
  ts_thread_state_address :: u32
  ts_thread_id :: u32
  ts_memory :: xe_memory_ref
  ts_stack_address :: u32
  ts_ppc_state :: u64

text \<open>A store through the register-file pointer updates the block it points to.\<close>

definition ppc_store :: "u64 \<Rightarrow> (xe_ppc_state_t \<Rightarrow> xe_ppc_state_t) \<Rightarrow> world \<Rightarrow> world" where
  "ppc_store p upd w = w\<lparr>host_mem := (host_mem w)(p := upd (host_mem w p))\<rparr>"

text \<open>
  Modelled from the spec: the macro \<^verbatim>\<open>XEASSERT\<close> is not among the sources. A failed
  assertion is the spec's AlignmentViolation, a contract violation that ends
  construction. The other way construction stops without an object: zeroing the block
  through a null pointer is a write to address 0, which ends the process.
\<close>

datatype fault = AlignmentViolation | NullPointerWrite

text \<open>
  \<^verbatim>\<open>ThreadState::ThreadState(processor, stack_size, thread_state_address, thread_id)\<close>,
  statement by statement. \<open>this\<close> is the host address of the object under construction.
\<close>

definition ThreadState_ctor ::
  "allocator_answers \<Rightarrow> u64 \<Rightarrow> Processor \<Rightarrow> u32 \<Rightarrow> u32 \<Rightarrow> u32 \<Rightarrow> world
     \<Rightarrow> fault + (ThreadState \<times> world)" where
  "ThreadState_ctor ans this proc stack_size thread_state_address thread_id w0 =
     (let (memory, w1) = Processor_memory proc w0;
          (stack_address, w2) = xe_memory_heap_alloc (heap_answer ans) memory 0 stack_size 0 w1;
          (ppc_state, w3) = xe_malloc_aligned (malloc_answer ans) w2
      in if ppc_state AND 0xF \<noteq> 0 then Inl AlignmentViolation
         else if ppc_state = 0 then Inl NullPointerWrite
         else
           let w4 = xe_zero_struct ppc_state w3;
               w5 = ppc_store ppc_state (\<lambda>s. s\<lparr>membase := xe_memory_addr memory 0\<rparr>) w4;
               w6 = ppc_store ppc_state (\<lambda>s. s\<lparr>processor := processor_ptr proc\<rparr>) w5;
               w7 = ppc_store ppc_state (\<lambda>s. s\<lparr>thread_state := this\<rparr>) w6;
               w8 = ppc_store ppc_state
                      (\<lambda>s. s\<lparr>r := (r s)[1 := ucast (stack_address + stack_size)]\<rparr>) w7;
               w9 = ppc_store ppc_state
                      (\<lambda>s. s\<lparr>r := (r s)[13 := ucast thread_state_address]\<rparr>) w8
           in Inr (\<lparr>ts_stack_size = stack_size,
                     ts_thread_state_address = thread_state_address,
                     ts_thread_id = thread_id,
                     ts_memory = memory,
                     ts_stack_address = stack_address,
                     ts_ppc_state = ppc_state\<rparr>, w9))"

text \<open>\<^verbatim>\<open>ThreadState::~ThreadState()\<close>.\<close>

definition ThreadState_dtor :: "ThreadState \<Rightarrow> world \<Rightarrow> world" where
  "ThreadState_dtor ts w0 =
     (let w1 = xe_free_aligned (ts_ppc_state ts) w0;
          w2 = xe_memory_heap_free (ts_memory ts) (ts_stack_address ts) 0 w1;
          w3 = xe_memory_release (ts_memory ts) w2
      in w3)"

text \<open>
  The world a completed construction leaves behind: the net effect of the constructor's
  statements (shown equal to them in \<open>ctor_cases\<close>).
\<close>

definition ctor_world ::
  "allocator_answers \<Rightarrow> u64 \<Rightarrow> Processor \<Rightarrow> u32 \<Rightarrow> u32 \<Rightarrow> world \<Rightarrow> world" where
  "ctor_world ans this proc stack_size thread_state_address w =
     w\<lparr>heap_live := (if heap_answer ans = 0 then heap_live w else heap_answer ans # heap_live w),
       host_live := malloc_answer ans # host_live w,
       memory_refs := Suc (memory_refs w),
       host_mem := (host_mem w)(malloc_answer ans :=
          zero_ppc_state\<lparr>membase := mapping_base (processor_memory proc),
             processor := processor_ptr proc, thread_state := this,
             r := (replicate 32 0)[1 := ucast (heap_answer ans + stack_size),
                                   13 := ucast thread_state_address]\<rparr>),
       trace := trace w @ [EvProcessorMemory, EvHeapAlloc stack_size (heap_answer ans),
                           EvMallocAligned (malloc_answer ans)]\<rparr>"

text \<open>The two resources of a context, and the order in which a log allocates them.\<close>

datatype resource = RegisterFileBlock | GuestStack

fun allocation_order :: "event list \<Rightarrow> resource list" where
  "allocation_order [] = []"
| "allocation_order (EvHeapAlloc _ _ # es) = GuestStack # allocation_order es"
| "allocation_order (EvMallocAligned _ # es) = RegisterFileBlock # allocation_order es"
| "allocation_order (_ # es) = allocation_order es"

subsection \<open>A concrete run\<close>

text \<open>
  The spec's scenario: a stack of 65536 bytes, thread state at 0x7FE00000, thread id 1,
  and a heap that answers 0x70000000. The host block comes back at 0x7F00, where host
  memory still holds the registers of an earlier thread.
\<close>

definition scenario_memory :: xe_memory_ref where
  "scenario_memory = \<lparr>memory_ptr = 0x2000, mapping_base = 0x100000000\<rparr>"

definition scenario_processor :: Processor where
  "scenario_processor = \<lparr>processor_ptr = 0x1000, processor_memory = scenario_memory\<rparr>"

definition stale_block :: xe_ppc_state_t where
  "stale_block = \<lparr>cr = 7, fpscr = 1, r = replicate 32 0xDEAD, v = replicate 128 5,
      f = replicate 32 9, membase = 1, processor = 2, thread_state = 3\<rparr>"

definition scenario_world :: world where
  "scenario_world = \<lparr>heap_live = [0x60000000], host_live = [0x4000], memory_refs = 1,
      host_mem = (\<lambda>_. stale_block), trace = []\<rparr>"

definition scenario_answers :: allocator_answers where
  "scenario_answers = \<lparr>heap_answer = 0x70000000, malloc_answer = 0x7F00\<rparr>"

definition scenario_ts :: ThreadState where
  "scenario_ts = \<lparr>ts_stack_size = 65536, ts_thread_state_address = 0x7FE00000,
      ts_thread_id = 1, ts_memory = scenario_memory, ts_stack_address = 0x70000000,
      ts_ppc_state = 0x7F00\<rparr>"

definition scenario_block :: xe_ppc_state_t where
  "scenario_block = \<lparr>cr = 0, fpscr = 0,
      r = (replicate 32 0)[1 := 0x70010000, 13 := 0x7FE00000],
      v = replicate 128 0, f = replicate 32 0,
      membase = 0x100000000, processor = 0x1000, thread_state = 0x5000\<rparr>"

definition scenario_after :: world where
  "scenario_after = \<lparr>heap_live = [0x70000000, 0x60000000], host_live = [0x7F00, 0x4000],
      memory_refs = 2, host_mem = (\<lambda>_. stale_block)(0x7F00 := scenario_block),
      trace = [EvProcessorMemory, EvHeapAlloc 65536 0x70000000, EvMallocAligned 0x7F00]\<rparr>"

text \<open>The same call against an exhausted guest heap, which answers 0.\<close>

definition exhausted_answers :: allocator_answers where
  "exhausted_answers = \<lparr>heap_answer = 0, malloc_answer = 0x7F00\<rparr>"

definition exhausted_ts :: ThreadState where
  "exhausted_ts = \<lparr>ts_stack_size = 65536, ts_thread_state_address = 0x7FE00000,
      ts_thread_id = 1, ts_memory = scenario_memory, ts_stack_address = 0,
      ts_ppc_state = 0x7F00\<rparr>"

definition exhausted_block :: xe_ppc_state_t where
  "exhausted_block = \<lparr>cr = 0, fpscr = 0,
      r = (replicate 32 0)[1 := 65536, 13 := 0x7FE00000],
      v = replicate 128 0, f = replicate 32 0,
      membase = 0x100000000, processor = 0x1000, thread_state = 0x5000\<rparr>"

definition exhausted_after :: world where
  "exhausted_after = \<lparr>heap_live = [0x60000000], host_live = [0x7F00, 0x4000],
      memory_refs = 2, host_mem = (\<lambda>_. stale_block)(0x7F00 := exhausted_block),
      trace = [EvProcessorMemory, EvHeapAlloc 65536 0, EvMallocAligned 0x7F00]\<rparr>"

section \<open>Memory search dialogs (src/xenia/app/emulator_window.h)\<close>

subsection \<open>Toggling a dialog\<close>

text \<open>
  \<^verbatim>\<open>memory_search_dialogs_\<close> maps a type index to an owning pointer; the pointer may be
  null. A key that is absent maps to \<open>None\<close>, a key holding a null pointer to
  \<open>Some None\<close>. A dialog's own state is its list of candidate cells.
\<close>

record MemorySearchDialog =
  memory_cells :: "u32 list"

type_synonym 't dialogs = "'t \<rightharpoonup> MemorySearchDialog option"

definition new_MemorySearchDialog :: MemorySearchDialog where
  "new_MemorySearchDialog = \<lparr>memory_cells = []\<rparr>"

definition ToggleMemorySearch :: "'t \<Rightarrow> 't dialogs \<Rightarrow> 't dialogs" where
  "ToggleMemorySearch search_t memory_search_dialogs =
     (if memory_search_dialogs search_t = None
      then memory_search_dialogs(search_t \<mapsto> Some new_MemorySearchDialog)
      else memory_search_dialogs(search_t \<mapsto> None))"

text \<open>A run of calls, from the menu or from a dialog's close button, in order.\<close>

fun toggle_calls :: "'t list \<Rightarrow> 't dialogs \<Rightarrow> 't dialogs" where
  "toggle_calls [] d = d"
| "toggle_calls (t # ts) d = toggle_calls ts (ToggleMemorySearch t d)"

text \<open>How many calls of a run take the branch that constructs a dialog for \<open>T\<close>.\<close>

fun dialogs_created :: "'t \<Rightarrow> 't list \<Rightarrow> 't dialogs \<Rightarrow> nat" where
  "dialogs_created T [] d = 0"
| "dialogs_created T (t # ts) d =
     (if t = T \<and> d T = None then 1 else 0) + dialogs_created T ts (ToggleMemorySearch t d)"

text \<open>The search types the window titles name.\<close>

datatype search_type = uint8_t | uint16_t | uint32_t | float_t

subsection \<open>The floating-point search\<close>

definition BASE_ADDRESS :: u32 where
  "BASE_ADDRESS = 0x82450000"

definition BYTES_PER_CHUNK :: u32 where
  "BYTES_PER_CHUNK = 65536"

text \<open>
  A \<^verbatim>\<open>float\<close> by the number it stands for. The comparisons \<^verbatim>\<open>>=\<close> and \<^verbatim>\<open><\<close> of the
  source depend on nothing else: both are false when either side is a NaN, and an
  infinity lies beyond every finite value.
\<close>

datatype float32 = NaN | NegInf | Finite real | PosInf

fun float_lt :: "float32 \<Rightarrow> float32 \<Rightarrow> bool" where
  "float_lt NaN _ = False"
| "float_lt _ NaN = False"
| "float_lt (Finite a) (Finite b) = (a < b)"
| "float_lt NegInf NegInf = False"
| "float_lt NegInf _ = True"
| "float_lt _ NegInf = False"
| "float_lt PosInf _ = False"
| "float_lt _ PosInf = True"

fun float_ge :: "float32 \<Rightarrow> float32 \<Rightarrow> bool" where
  "float_ge NaN _ = False"
| "float_ge _ NaN = False"
| "float_ge a b = (\<not> float_lt a b)"

text \<open>
  The scan of the "new search" button. \<open>memory\<close> is what
  \<^verbatim>\<open>load_and_swap<float>(memory->TranslateVirtual(address))\<close> reads at a guest address;
  \<open>i\<close> is the 32-bit loop counter, advanced by \<^verbatim>\<open>sizeof(float)\<close>.
\<close>

function new_search_loop ::
  "(u32 \<Rightarrow> float32) \<Rightarrow> float32 \<Rightarrow> float32 \<Rightarrow> u32 \<Rightarrow> u32 list \<Rightarrow> u32 list" where
  "new_search_loop memory min_val max_val i cells =
     (if i < BYTES_PER_CHUNK * 15
      then let val = memory (BASE_ADDRESS + i)
           in new_search_loop memory min_val max_val (i + 4)
                (if float_ge val min_val \<and> float_lt val max_val
                 then cells @ [BASE_ADDRESS + i] else cells)
      else cells)"
  by pat_completeness auto
termination
proof (relation "measure (\<lambda>(memory, min_val, max_val, i, cells).
                   unat (BYTES_PER_CHUNK * 15) - unat i)")
  show "wf (measure (\<lambda>(memory, min_val, max_val, i, cells).
              unat (BYTES_PER_CHUNK * 15) - unat i))"
    by simp
next
  fix memory :: "u32 \<Rightarrow> float32" and min_val max_val :: float32 and i :: u32
    and cells :: "u32 list" and x :: float32
  assume "i < BYTES_PER_CHUNK * 15"
  then have lt: "unat i < 983040"
    by (simp add: BYTES_PER_CHUNK_def word_less_nat_alt)
  then have "unat (i + 4) = unat i + 4"
    by (simp add: unat_word_ariths)
  with lt show "((memory, min_val, max_val, i + 4,
                  if float_ge x min_val \<and> float_lt x max_val
                  then cells @ [BASE_ADDRESS + i] else cells),
                 (memory, min_val, max_val, i, cells))
                \<in> measure (\<lambda>(memory, min_val, max_val, i, cells).
                     unat (BYTES_PER_CHUNK * 15) - unat i)"
    by (simp add: BYTES_PER_CHUNK_def)
qed

declare new_search_loop.simps [simp del]

text \<open>The erase loop of the "continue" button.\<close>

fun continue_loop ::
  "(u32 \<Rightarrow> float32) \<Rightarrow> float32 \<Rightarrow> float32 \<Rightarrow> u32 list \<Rightarrow> u32 list" where
  "continue_loop memory min_val max_val [] = []"
| "continue_loop memory min_val max_val (cell # cells) =
     (let val = memory cell
      in if float_ge val min_val \<and> float_lt val max_val
         then cell # continue_loop memory min_val max_val cells
         else continue_loop memory min_val max_val cells)"

text \<open>
  The float branch of \<^verbatim>\<open>MemorySearchDialog::OnDraw\<close>, as far as it changes the dialog:
  the two bounds as parsed, and which buttons were pressed in this frame.
\<close>

definition OnDraw_float ::
  "(u32 \<Rightarrow> float32) \<Rightarrow> float32 \<Rightarrow> float32 \<Rightarrow> bool \<Rightarrow> bool \<Rightarrow> MemorySearchDialog
     \<Rightarrow> MemorySearchDialog" where
  "OnDraw_float memory min_val max_val new_search_clicked continue_clicked dialog =
     (let d1 = (if new_search_clicked
                then dialog\<lparr>memory_cells := new_search_loop memory min_val max_val 0 []\<rparr>
                else dialog);
          d2 = (if continue_clicked
                then d1\<lparr>memory_cells :=
                          continue_loop memory min_val max_val (memory_cells d1)\<rparr>
                else d1)
      in d2)"

text \<open>
  The half-open interval \<open>min_val \<le> val < max_val\<close> in the comparisons of the source,
  and the cells a new search visits, in order.
\<close>

definition in_interval :: "float32 \<Rightarrow> float32 \<Rightarrow> float32 \<Rightarrow> bool" where
  "in_interval min_val max_val val = (float_ge val min_val \<and> float_lt val max_val)"

definition scanned_cells :: "u32 list" where
  "scanned_cells = map (\<lambda>k. BASE_ADDRESS + 4 * of_nat k) [0..<245760]"

section \<open>Properties of the guest thread state\<close>

lemmas ext_defs = Processor_memory_def xe_memory_heap_alloc_def xe_malloc_aligned_def
  xe_zero_struct_def xe_memory_addr_def xe_free_aligned_def xe_memory_heap_free_def
  xe_memory_release_def ppc_store_def

lemma ctor_cases:
  "ThreadState_ctor ans this proc stack_size thread_state_address thread_id w =
     (if malloc_answer ans AND 0xF \<noteq> 0 then Inl AlignmentViolation
      else if malloc_answer ans = 0 then Inl NullPointerWrite
      else Inr (\<lparr>ts_stack_size = stack_size,
                  ts_thread_state_address = thread_state_address,
                  ts_thread_id = thread_id,
                  ts_memory = processor_memory proc,
                  ts_stack_address = heap_answer ans,
                  ts_ppc_state = malloc_answer ans\<rparr>,
                ctor_world ans this proc stack_size thread_state_address w))"
  by (simp add: ThreadState_ctor_def ext_defs ctor_world_def Let_def zero_ppc_state_def)

lemma ctor_InrD:
  assumes "ThreadState_ctor ans this proc stack_size thread_state_address thread_id w
             = Inr (ts, w')"
  shows "malloc_answer ans AND 0xF = 0" and "malloc_answer ans \<noteq> 0"
    and "ts = \<lparr>ts_stack_size = stack_size,
                ts_thread_state_address = thread_state_address,
                ts_thread_id = thread_id,
                ts_memory = processor_memory proc,
                ts_stack_address = heap_answer ans,
                ts_ppc_state = malloc_answer ans\<rparr>"
    and "w' = ctor_world ans this proc stack_size thread_state_address w"
  using assms by (auto simp: ctor_cases split: if_splits)

lemma dtor_eq:
  "ThreadState_dtor ts w =
     w\<lparr>heap_live := remove1 (ts_stack_address ts) (heap_live w),
       host_live := remove1 (ts_ppc_state ts) (host_live w),
       memory_refs := memory_refs w - 1,
       trace := trace w @ [EvFreeAligned (ts_ppc_state ts), EvHeapFree (ts_stack_address ts),
                           EvMemoryRelease]\<rparr>"
  by (simp add: ThreadState_dtor_def ext_defs Let_def)

lemma aligned16: "(p :: u64) AND 0xF = 0 \<longleftrightarrow> unat p mod 16 = 0"
proof -
  have m: "(0xF::u64) = mask 4"
    by (simp add: mask_eq_exp_minus_1)
  have "p AND 0xF = take_bit 4 p"
    unfolding m by (simp add: take_bit_eq_mask)
  moreover have "unat (take_bit 4 p) = unat p mod 16"
    by (simp add: unsigned_take_bit_eq take_bit_eq_mod unat_mod)
  ultimately show ?thesis
    by (metis unat_eq_0)
qed

lemma ucast32_64: "unat (ucast (x :: u32) :: u64) = unat x"
proof -
  have "unat x < 2 ^ 32"
    using unsigned_less [of x] by simp
  then show ?thesis
    by (simp add: unsigned_ucast_eq take_bit_eq_mod)
qed

lemma AllocateAligned_aligned: "AllocateAligned raw AND 0xF = 0"
  by (simp add: AllocateAligned_def and.assoc)

lemma AllocateAligned_example: "AllocateAligned 0x7EF8 = 0x7F00"
  by (simp add: AllocateAligned_def)

lemma allocation_order_append:
  "allocation_order (xs @ ys) = allocation_order xs @ allocation_order ys"
  by (induction xs rule: allocation_order.induct) simp_all

lemma scenario_Create:
  "ThreadState_ctor scenario_answers 0x5000 scenario_processor 65536 0x7FE00000 1 scenario_world
     = Inr (scenario_ts, scenario_after)"
  by (simp add: ctor_cases ctor_world_def scenario_answers_def scenario_processor_def
      scenario_world_def scenario_ts_def scenario_after_def scenario_block_def
      scenario_memory_def zero_ppc_state_def)

lemma exhausted_Create:
  "ThreadState_ctor exhausted_answers 0x5000 scenario_processor 65536 0x7FE00000 1 scenario_world
     = Inr (exhausted_ts, exhausted_after)"
  by (simp add: ctor_cases ctor_world_def exhausted_answers_def scenario_processor_def
      scenario_world_def exhausted_ts_def exhausted_after_def exhausted_block_def
      scenario_memory_def zero_ppc_state_def)

text \<open>
  C1: a completed construction leaves the stack-pointer register r[1] equal to
  \<open>stack_base + stack_size\<close>, where \<open>stack_base\<close> is the address the heap allocator
  returned. The sum is the source's 32-bit sum, widened to the 64-bit register; whenever
  the stack ends inside the 32-bit guest address space it is the sum of the two numbers.
\<close>

theorem ctor_stack_pointer:
  assumes "ThreadState_ctor ans this proc stack_size thread_state_address thread_id w
             = Inr (ts, w')"
  shows "ts_stack_address ts = heap_answer ans \<and>
         r (host_mem w' (ts_ppc_state ts)) ! 1 = ucast (ts_stack_address ts + stack_size) \<and>
         (unat (ts_stack_address ts) + unat stack_size < 2 ^ 32 \<longrightarrow>
            unat (r (host_mem w' (ts_ppc_state ts)) ! 1)
              = unat (ts_stack_address ts) + unat stack_size)"
proof -
  note d = ctor_InrD [OF assms]
  have sp: "r (host_mem w' (ts_ppc_state ts)) ! 1 = ucast (heap_answer ans + stack_size)"
    by (simp add: d(3,4) ctor_world_def zero_ppc_state_def)
  have "unat (ucast (heap_answer ans + stack_size) :: u64)
          = unat (heap_answer ans) + unat stack_size"
    if "unat (heap_answer ans) + unat stack_size < 2 ^ 32"
    using that by (simp add: ucast32_64 unat_add_lem [THEN iffD1])
  with sp show ?thesis
    by (simp add: d(3))
qed

theorem ctor_stack_pointer_witness:
  "ThreadState_ctor scenario_answers 0x5000 scenario_processor 65536 0x7FE00000 1 scenario_world
     = Inr (scenario_ts, scenario_after) \<and>
   ts_stack_address scenario_ts = 0x70000000 \<and>
   r (host_mem scenario_after (ts_ppc_state scenario_ts)) ! 1 = 0x70010000 \<and>
   unat (r (host_mem scenario_after (ts_ppc_state scenario_ts)) ! 1) = 0x70000000 + 65536"
  using ctor_stack_pointer [OF scenario_Create] scenario_Create
  by (simp add: scenario_ts_def scenario_answers_def)

text \<open>
  C2 (amended): the constructor has no failure path for the guest-stack allocation. When
  the guest heap fails (it answers 0) and the host allocator answers a non-null block
  aligned to 16 bytes, construction reports no failure: it completes with a context whose
  stack base is 0 and whose stack-pointer register is \<open>stack_size\<close>; nothing is released,
  so the guest heap's outstanding allocations are unchanged and the host allocator has
  one outstanding block more than before the call.
\<close>

theorem ctor_heap_failure_unreported:
  assumes "heap_answer ans = 0" and "malloc_answer ans \<noteq> 0"
    and "malloc_answer ans AND 0xF = 0"
  shows "\<exists>ts w'. ThreadState_ctor ans this proc stack_size thread_state_address thread_id w
                    = Inr (ts, w') \<and>
           ts_stack_address ts = 0 \<and>
           r (host_mem w' (ts_ppc_state ts)) ! 1 = ucast stack_size \<and>
           heap_live w' = heap_live w \<and>
           host_live w' = malloc_answer ans # host_live w \<and>
           length (host_live w') = Suc (length (host_live w))"
  using assms by (simp add: ctor_cases ctor_world_def zero_ppc_state_def)

theorem ctor_heap_failure_unreported_witness:
  "heap_answer exhausted_answers = 0 \<and> malloc_answer exhausted_answers \<noteq> 0 \<and>
   malloc_answer exhausted_answers AND 0xF = 0 \<and>
   (\<exists>ts w'. ThreadState_ctor exhausted_answers 0x5000 scenario_processor 65536 0x7FE00000 1
                scenario_world = Inr (ts, w') \<and>
       ts_stack_address ts = 0 \<and>
       r (host_mem w' (ts_ppc_state ts)) ! 1 = 65536 \<and>
       heap_live w' = [0x60000000] \<and>
       host_live w' = [0x7F00, 0x4000] \<and>
       length (host_live w') = Suc (length (host_live scenario_world)))"
proof -
  have h: "heap_answer exhausted_answers = 0" "malloc_answer exhausted_answers \<noteq> 0"
    "malloc_answer exhausted_answers AND 0xF = 0"
    by (simp_all add: exhausted_answers_def)
  from ctor_heap_failure_unreported [OF h, of "0x5000" scenario_processor 65536 "0x7FE00000" 1
      scenario_world]
  show ?thesis
    using h by (simp add: scenario_world_def exhausted_answers_def)
qed

text \<open>
  C2 as stated fails: with the guest heap exhausted, the call below returns a context
  instead of a failure, and the host allocator goes from one outstanding block to two.
\<close>

theorem ctor_heap_exhausted_counterexample:
  "heap_answer exhausted_answers = 0 \<and>
   ThreadState_ctor exhausted_answers 0x5000 scenario_processor 65536 0x7FE00000 1 scenario_world
     = Inr (exhausted_ts, exhausted_after) \<and>
   length (host_live scenario_world) = 1 \<and>
   length (host_live exhausted_after) = 2"
  using exhausted_Create
  by (simp add: exhausted_answers_def scenario_world_def exhausted_after_def)

text \<open>
  C3 (amended): the constructor allocates in the order of its statements: first
  \<open>stack_size\<close> bytes from the processor's guest memory heap, and only afterwards the
  register-file block from the host aligned allocator.
\<close>

theorem ctor_allocation_order:
  assumes "ThreadState_ctor ans this proc stack_size thread_state_address thread_id w
             = Inr (ts, w')"
  shows "trace w' = trace w @ [EvProcessorMemory, EvHeapAlloc stack_size (heap_answer ans),
                               EvMallocAligned (malloc_answer ans)] \<and>
         allocation_order (trace w')
           = allocation_order (trace w) @ [GuestStack, RegisterFileBlock]"
proof -
  note d = ctor_InrD [OF assms]
  have "trace w' = trace w @ [EvProcessorMemory, EvHeapAlloc stack_size (heap_answer ans),
                              EvMallocAligned (malloc_answer ans)]"
    by (simp add: d(4) ctor_world_def)
  then show ?thesis
    by (simp add: allocation_order_append)
qed

theorem ctor_allocation_order_witness:
  "ThreadState_ctor scenario_answers 0x5000 scenario_processor 65536 0x7FE00000 1 scenario_world
     = Inr (scenario_ts, scenario_after) \<and>
   trace scenario_after
     = [EvProcessorMemory, EvHeapAlloc 65536 0x70000000, EvMallocAligned 0x7F00] \<and>
   allocation_order (trace scenario_after) = [GuestStack, RegisterFileBlock]"
  using ctor_allocation_order [OF scenario_Create] scenario_Create
  by (simp add: scenario_world_def scenario_answers_def)

text \<open>
  C3 as stated fails: starting from an empty log, the run of the scenario does not
  allocate the register-file block before the guest stack.
\<close>

theorem ctor_allocation_order_counterexample:
  "ThreadState_ctor scenario_answers 0x5000 scenario_processor 65536 0x7FE00000 1 scenario_world
     = Inr (scenario_ts, scenario_after) \<and>
   trace scenario_world = [] \<and>
   allocation_order (trace scenario_after) \<noteq> [RegisterFileBlock, GuestStack]"
  using scenario_Create by (simp add: scenario_after_def scenario_world_def)

text \<open>
  C4: the host allocator hands out blocks at multiples of 16, so the constructor's
  alignment assertion never fails, whatever raw block the allocator started from, and the
  register-file block of every constructed context lies at an address that is a multiple
  of 16. Construction completes whenever the allocator does not fail.
\<close>

theorem ctor_register_file_aligned:
  "ThreadState_ctor \<lparr>heap_answer = stack_base, malloc_answer = AllocateAligned raw\<rparr>
       this proc stack_size thread_state_address thread_id w \<noteq> Inl AlignmentViolation \<and>
   (\<forall>ts w'. ThreadState_ctor \<lparr>heap_answer = stack_base, malloc_answer = AllocateAligned raw\<rparr>
                this proc stack_size thread_state_address thread_id w = Inr (ts, w') \<longrightarrow>
        ts_ppc_state ts = AllocateAligned raw \<and>
        ts_ppc_state ts AND 0xF = 0 \<and> unat (ts_ppc_state ts) mod 16 = 0) \<and>
   (AllocateAligned raw \<noteq> 0 \<longrightarrow>
      (\<exists>ts w'. ThreadState_ctor \<lparr>heap_answer = stack_base, malloc_answer = AllocateAligned raw\<rparr>
                  this proc stack_size thread_state_address thread_id w = Inr (ts, w')))"
proof -
  have a: "AllocateAligned raw AND 0xF = 0"
    by (rule AllocateAligned_aligned)
  then have m: "unat (AllocateAligned raw) mod 16 = 0"
    by (simp add: aligned16)
  show ?thesis
    using a m by (auto simp: ctor_cases)
qed

theorem ctor_register_file_aligned_witness:
  "AllocateAligned 0x7EF8 = 0x7F00 \<and>
   ThreadState_ctor \<lparr>heap_answer = 0x70000000, malloc_answer = AllocateAligned 0x7EF8\<rparr>
       0x5000 scenario_processor 65536 0x7FE00000 1 scenario_world
     = Inr (scenario_ts, scenario_after) \<and>
   ts_ppc_state scenario_ts = 0x7F00 \<and>
   ts_ppc_state scenario_ts AND 0xF = 0 \<and> unat (ts_ppc_state scenario_ts) mod 16 = 0"
proof -
  have run: "ThreadState_ctor
       \<lparr>heap_answer = 0x70000000, malloc_answer = AllocateAligned 0x7EF8\<rparr>
       0x5000 scenario_processor 65536 0x7FE00000 1 scenario_world
     = Inr (scenario_ts, scenario_after)"
    using scenario_Create by (simp add: AllocateAligned_example scenario_answers_def)
  from ctor_register_file_aligned [of "0x70000000" "0x7EF8" "0x5000" scenario_processor 65536
      "0x7FE00000" 1 scenario_world] run
  show ?thesis
    by (simp add: AllocateAligned_example)
qed

text \<open>
  C5: a completed construction leaves the thread-environment register r[13] equal to
  \<open>thread_state_address\<close>, value for value; that store is the constructor's last
  statement, and the destructor writes to no register file, so the register still holds
  the address after teardown.
\<close>

theorem ctor_thread_environment_register:
  assumes "ThreadState_ctor ans this proc stack_size thread_state_address thread_id w
             = Inr (ts, w')"
  shows "r (host_mem w' (ts_ppc_state ts)) ! 13 = ucast thread_state_address \<and>
         unat (r (host_mem w' (ts_ppc_state ts)) ! 13) = unat thread_state_address \<and>
         ts_thread_state_address ts = thread_state_address \<and>
         host_mem (ThreadState_dtor ts w') = host_mem w' \<and>
         r (host_mem (ThreadState_dtor ts w') (ts_ppc_state ts)) ! 13
           = ucast thread_state_address"
proof -
  note d = ctor_InrD [OF assms]
  have r13: "r (host_mem w' (ts_ppc_state ts)) ! 13 = ucast thread_state_address"
    by (simp add: d(3,4) ctor_world_def zero_ppc_state_def)
  have keep: "host_mem (ThreadState_dtor ts w') = host_mem w'"
    by (simp add: dtor_eq)
  show ?thesis
    by (simp add: r13 keep ucast32_64) (simp add: d(3))
qed

theorem ctor_thread_environment_register_witness:
  "ThreadState_ctor scenario_answers 0x5000 scenario_processor 65536 0x7FE00000 1 scenario_world
     = Inr (scenario_ts, scenario_after) \<and>
   r (host_mem scenario_after (ts_ppc_state scenario_ts)) ! 13 = 0x7FE00000 \<and>
   r (host_mem (ThreadState_dtor scenario_ts scenario_after) (ts_ppc_state scenario_ts)) ! 13
     = 0x7FE00000"
  using ctor_thread_environment_register [OF scenario_Create] scenario_Create
  by simp

text \<open>
  C6: the block is zeroed before the cross-links are stored, whatever it held before: in
  the register file \<open>s\<close> of a constructed context the condition and status fields, the
  vector and floating-point registers and every general-purpose register other than r[1]
  and r[13] are zero, while the memory base and the two back-references hold their links.
\<close>

theorem ctor_zero_initialized:
  assumes "ThreadState_ctor ans this proc stack_size thread_state_address thread_id w
             = Inr (ts, w')"
    and "s = host_mem w' (ts_ppc_state ts)"
  shows "cr s = 0 \<and> fpscr s = 0 \<and> v s = replicate 128 0 \<and> f s = replicate 32 0 \<and>
         length (r s) = 32 \<and> (\<forall>i<32. i \<noteq> 1 \<longrightarrow> i \<noteq> 13 \<longrightarrow> r s ! i = 0) \<and>
         membase s = mapping_base (processor_memory proc) \<and> processor s = processor_ptr proc \<and>
         thread_state s = this"
proof -
  note d = ctor_InrD [OF assms(1)]
  have s: "s = zero_ppc_state\<lparr>membase := mapping_base (processor_memory proc),
             processor := processor_ptr proc, thread_state := this,
             r := (replicate 32 0)[1 := ucast (heap_answer ans + stack_size),
                                   13 := ucast thread_state_address]\<rparr>"
    by (simp add: assms(2) d(3,4) ctor_world_def)
  have "r s ! i = 0" if "i < 32" "i \<noteq> 1" "i \<noteq> 13" for i
    using that by (simp add: s zero_ppc_state_def)
  then show ?thesis
    by (simp add: s zero_ppc_state_def)
qed

theorem ctor_zero_initialized_witness:
  "ThreadState_ctor scenario_answers 0x5000 scenario_processor 65536 0x7FE00000 1 scenario_world
     = Inr (scenario_ts, scenario_after) \<and>
   host_mem scenario_world (ts_ppc_state scenario_ts) = stale_block \<and>
   cr stale_block = 7 \<and> r stale_block ! 0 = 0xDEAD \<and>
   cr (host_mem scenario_after (ts_ppc_state scenario_ts)) = 0 \<and>
   fpscr (host_mem scenario_after (ts_ppc_state scenario_ts)) = 0 \<and>
   v (host_mem scenario_after (ts_ppc_state scenario_ts)) = replicate 128 0 \<and>
   f (host_mem scenario_after (ts_ppc_state scenario_ts)) = replicate 32 0 \<and>
   r (host_mem scenario_after (ts_ppc_state scenario_ts)) ! 0 = 0 \<and>
   r (host_mem scenario_after (ts_ppc_state scenario_ts)) ! 12 = 0 \<and>
   r (host_mem scenario_after (ts_ppc_state scenario_ts)) ! 31 = 0 \<and>
   membase (host_mem scenario_after (ts_ppc_state scenario_ts)) = 0x100000000"
  using ctor_zero_initialized [OF scenario_Create refl] scenario_Create
  by (simp add: scenario_world_def stale_block_def scenario_processor_def scenario_memory_def)

text \<open>
  C7: for a context constructed with both allocations granted, teardown gives the guest
  stack back to the heap and the register-file block back to the host allocator, and
  drops the memory reference last; the outstanding allocations of both allocators and
  the reference count are then what they were before the construction.
\<close>

theorem dtor_returns_to_baseline:
  assumes "ThreadState_ctor ans this proc stack_size thread_state_address thread_id w
             = Inr (ts, w')"
    and "heap_answer ans \<noteq> 0"
  shows "heap_live (ThreadState_dtor ts w') = heap_live w \<and>
         host_live (ThreadState_dtor ts w') = host_live w \<and>
         memory_refs (ThreadState_dtor ts w') = memory_refs w \<and>
         (\<exists>released. trace (ThreadState_dtor ts w') = trace w' @ released @ [EvMemoryRelease] \<and>
            set released = {EvHeapFree (ts_stack_address ts), EvFreeAligned (ts_ppc_state ts)})"
proof -
  note d = ctor_InrD [OF assms(1)]
  have live: "heap_live (ThreadState_dtor ts w') = heap_live w"
    "host_live (ThreadState_dtor ts w') = host_live w"
    "memory_refs (ThreadState_dtor ts w') = memory_refs w"
    using assms(2) by (simp_all add: dtor_eq d(3,4) ctor_world_def)
  have "trace (ThreadState_dtor ts w') =
          trace w' @ [EvFreeAligned (ts_ppc_state ts), EvHeapFree (ts_stack_address ts)]
            @ [EvMemoryRelease]"
    by (simp add: dtor_eq)
  moreover have "set [EvFreeAligned (ts_ppc_state ts), EvHeapFree (ts_stack_address ts)]
      = {EvHeapFree (ts_stack_address ts), EvFreeAligned (ts_ppc_state ts)}"
    by auto
  ultimately show ?thesis
    using live by blast
qed

theorem dtor_returns_to_baseline_witness:
  "ThreadState_ctor scenario_answers 0x5000 scenario_processor 65536 0x7FE00000 1 scenario_world
     = Inr (scenario_ts, scenario_after) \<and>
   heap_answer scenario_answers \<noteq> 0 \<and>
   heap_live scenario_after = [0x70000000, 0x60000000] \<and>
   host_live scenario_after = [0x7F00, 0x4000] \<and>
   memory_refs scenario_after = 2 \<and>
   heap_live (ThreadState_dtor scenario_ts scenario_after) = [0x60000000] \<and>
   host_live (ThreadState_dtor scenario_ts scenario_after) = [0x4000] \<and>
   memory_refs (ThreadState_dtor scenario_ts scenario_after) = 1"
proof -
  have h: "heap_answer scenario_answers \<noteq> 0"
    by (simp add: scenario_answers_def)
  from dtor_returns_to_baseline [OF scenario_Create h] scenario_Create h
  show ?thesis
    by (simp add: scenario_world_def scenario_after_def)
qed

text \<open>
  C9: the destructor releases in one fixed order: it frees the register-file block
  through the aligned host free, then frees the guest stack back to the heap, and
  releases the memory reference last. The host block and the guest stack leave the
  outstanding allocations, one reference is dropped, and host memory is not written.
\<close>

theorem dtor_release_order:
  "trace (ThreadState_dtor ts w) =
     trace w @ [EvFreeAligned (ts_ppc_state ts), EvHeapFree (ts_stack_address ts),
                EvMemoryRelease] \<and>
   host_live (ThreadState_dtor ts w) = remove1 (ts_ppc_state ts) (host_live w) \<and>
   heap_live (ThreadState_dtor ts w) = remove1 (ts_stack_address ts) (heap_live w) \<and>
   memory_refs (ThreadState_dtor ts w) = memory_refs w - 1 \<and>
   host_mem (ThreadState_dtor ts w) = host_mem w"
  by (simp add: dtor_eq)

section \<open>Properties of the memory search dialogs\<close>

lemma toggle_calls_at:
  "toggle_calls ks d T =
     (if T \<notin> set ks then d T
      else if d T = None \<and> count_list ks T = 1 then Some (Some new_MemorySearchDialog)
      else Some None)"
proof (induction ks arbitrary: d)
  case Nil
  show ?case by simp
next
  case (Cons k ks)
  show ?case
    by (auto simp: Cons.IH ToggleMemorySearch_def count_list_0_iff)
qed

lemma dom_ToggleMemorySearch: "dom (ToggleMemorySearch T d) = insert T (dom d)"
  by (auto simp: ToggleMemorySearch_def)

lemma dom_toggle_calls: "dom (toggle_calls ks d) = set ks \<union> dom d"
  by (induction ks arbitrary: d) (auto simp: dom_ToggleMemorySearch)

lemma dialogs_created_present: "d T \<noteq> None \<Longrightarrow> dialogs_created T ks d = 0"
proof (induction ks arbitrary: d)
  case Nil
  show ?case by simp
next
  case (Cons k ks)
  have "ToggleMemorySearch k d T \<noteq> None"
    using Cons.prems by (simp add: ToggleMemorySearch_def)
  then show ?case
    using Cons.prems by (simp add: Cons.IH)
qed

lemma dialogs_created_le: "dialogs_created T ks d \<le> 1"
proof (induction ks arbitrary: d)
  case Nil
  show ?case by simp
next
  case (Cons k ks)
  show ?case
  proof (cases "k = T \<and> d T = None")
    case True
    then have "ToggleMemorySearch k d T \<noteq> None"
      by (simp add: ToggleMemorySearch_def)
    then show ?thesis
      by (simp add: dialogs_created_present)
  next
    case False
    then show ?thesis
      using Cons.IH [of "ToggleMemorySearch k d"] by auto
  qed
qed

text \<open>
  C8: a call for a search type \<open>T\<close> whose key is absent inserts the key with a new
  dialog; a call that finds the key resets its pointer to null and keeps the key. No
  call removes a key. So once the key is there, every call for \<open>T\<close> leaves a null
  pointer under it; counted from a map without the key, only the first call for \<open>T\<close>
  leaves a dialog open, and any run of calls constructs at most one dialog for \<open>T\<close>.
\<close>

theorem ToggleMemorySearch_never_reopens:
  fixes d :: "'t dialogs"
  shows "(d T = None \<longrightarrow> ToggleMemorySearch T d T = Some (Some new_MemorySearchDialog)) \<and>
         (d T \<noteq> None \<longrightarrow> ToggleMemorySearch T d T = Some None) \<and>
         dom (ToggleMemorySearch T d) = insert T (dom d) \<and>
         dom d \<subseteq> dom (toggle_calls ks d) \<and>
         (d T \<noteq> None \<longrightarrow> T \<in> set ks \<longrightarrow> toggle_calls ks d T = Some None) \<and>
         (d T = None \<longrightarrow> toggle_calls ks d T =
            (if count_list ks T = 0 then None
             else if count_list ks T = 1 then Some (Some new_MemorySearchDialog)
             else Some None)) \<and>
         dialogs_created T ks d \<le> 1"
proof -
  have "ToggleMemorySearch T d T = Some (Some new_MemorySearchDialog)" if "d T = None"
    using that by (simp add: ToggleMemorySearch_def)
  moreover have "ToggleMemorySearch T d T = Some None" if "d T \<noteq> None"
    using that by (simp add: ToggleMemorySearch_def)
  moreover have "dom d \<subseteq> dom (toggle_calls ks d)"
    by (simp add: dom_toggle_calls)
  moreover have "toggle_calls ks d T = Some None" if "d T \<noteq> None" "T \<in> set ks"
    using that by (simp add: toggle_calls_at)
  moreover have "toggle_calls ks d T =
            (if count_list ks T = 0 then None
             else if count_list ks T = 1 then Some (Some new_MemorySearchDialog)
             else Some None)" if "d T = None"
    using that by (simp add: toggle_calls_at count_list_0_iff)
  ultimately show ?thesis
    using dialogs_created_le [of T ks d] by (simp add: dom_ToggleMemorySearch)
qed

theorem ToggleMemorySearch_never_reopens_witness:
  "ToggleMemorySearch float_t Map.empty float_t = Some (Some new_MemorySearchDialog) \<and>
   ToggleMemorySearch float_t [float_t \<mapsto> Some new_MemorySearchDialog] float_t = Some None \<and>
   ToggleMemorySearch float_t [float_t \<mapsto> None] float_t = Some None \<and>
   toggle_calls [float_t, uint8_t, float_t] Map.empty float_t = Some None \<and>
   toggle_calls [float_t, uint8_t, float_t, float_t] Map.empty float_t = Some None \<and>
   toggle_calls [uint8_t, float_t] [float_t \<mapsto> None] float_t = Some None \<and>
   dialogs_created float_t [float_t, uint8_t, float_t, float_t] Map.empty = 1"
proof -
  have a: "toggle_calls [float_t, uint8_t, float_t] Map.empty float_t = Some None"
    using ToggleMemorySearch_never_reopens
      [of "Map.empty :: search_type dialogs" float_t "[float_t, uint8_t, float_t]"]
    by simp
  have b: "toggle_calls [float_t, uint8_t, float_t, float_t] Map.empty float_t = Some None"
    using ToggleMemorySearch_never_reopens
      [of "Map.empty :: search_type dialogs" float_t "[float_t, uint8_t, float_t, float_t]"]
    by simp
  have c: "ToggleMemorySearch float_t [float_t \<mapsto> None] float_t = Some None \<and>
           toggle_calls [uint8_t, float_t] [float_t \<mapsto> None] float_t = Some None"
    using ToggleMemorySearch_never_reopens
      [of "[float_t \<mapsto> None]" float_t "[uint8_t, float_t]"]
    by simp
  have e: "ToggleMemorySearch float_t [float_t \<mapsto> Some new_MemorySearchDialog] float_t
             = Some None"
    using ToggleMemorySearch_never_reopens
      [of "[float_t \<mapsto> Some new_MemorySearchDialog]" float_t "[]"]
    by simp
  have g: "ToggleMemorySearch float_t Map.empty float_t = Some (Some new_MemorySearchDialog)"
    using ToggleMemorySearch_never_reopens [of "Map.empty :: search_type dialogs" float_t "[]"]
    by simp
  have h: "dialogs_created float_t [float_t, uint8_t, float_t, float_t] Map.empty = 1"
    by (simp add: ToggleMemorySearch_def)
  from a b c e g h show ?thesis
    by simp
qed

lemma continue_loop_filter:
  "continue_loop memory lo hi cells = filter (\<lambda>c. in_interval lo hi (memory c)) cells"
  by (induction cells) (simp_all add: in_interval_def Let_def)

lemma new_search_loop_from:
  "k \<le> 245760 \<Longrightarrow>
   new_search_loop memory lo hi (4 * of_nat k) cells =
     cells @ filter (\<lambda>c. in_interval lo hi (memory c))
               (map (\<lambda>k. BASE_ADDRESS + 4 * of_nat k) [k..<245760])"
proof (induction "245760 - k" arbitrary: k cells)
  case 0
  then have k: "k = 245760" by simp
  have "\<not> (4 * of_nat k < BYTES_PER_CHUNK * 15)"
    unfolding k by (simp add: BYTES_PER_CHUNK_def)
  then show ?case
    by (subst new_search_loop.simps) (simp add: k)
next
  case (Suc n)
  then have k: "k < 245760" by simp
  have u: "unat (4 * of_nat k :: u32) = 4 * k"
    using k by (simp add: unat_word_ariths unat_of_nat)
  have lt: "(4 * of_nat k :: u32) < BYTES_PER_CHUNK * 15"
    using k by (simp add: word_less_nat_alt u BYTES_PER_CHUNK_def)
  have step: "(4 * of_nat k :: u32) + 4 = 4 * of_nat (Suc k)"
    by simp
  have IH: "new_search_loop memory lo hi (4 * of_nat (Suc k)) cs =
      cs @ filter (\<lambda>c. in_interval lo hi (memory c))
             (map (\<lambda>k. BASE_ADDRESS + 4 * of_nat k) [Suc k..<245760])" for cs
    using Suc.hyps(1) [of "Suc k" cs] Suc.hyps(2) k by simp
  show ?case
    apply (subst new_search_loop.simps)
    apply (simp only: lt if_True Let_def step IH)
    using k by (simp add: upt_conv_Cons in_interval_def)
qed

lemma new_search_filter:
  "new_search_loop memory lo hi 0 [] = filter (\<lambda>c. in_interval lo hi (memory c)) scanned_cells"
  using new_search_loop_from [of 0 memory lo hi "[]"] by (simp add: scanned_cells_def)

lemma in_interval_Finite:
  "in_interval (Finite lo) (Finite hi) (Finite x) \<longleftrightarrow> lo \<le> x \<and> x < hi"
  by (auto simp: in_interval_def)

lemma float_lt_irrefl: "\<not> float_lt x x"
  by (cases x) simp_all

text \<open>
  C10: in the floating-point dialog, a new search keeps exactly the scanned cells, and
  "continue" exactly the remembered cells, whose loaded value passes
  \<open>val >= min_val && val < max_val\<close>. On numbers that is \<open>min_val \<le> val < max_val\<close>: the
  lower bound is included, the upper bound never is.
\<close>

theorem float_search_half_open:
  "memory_cells (OnDraw_float memory min_val max_val True False dialog) =
     filter (\<lambda>cell. in_interval min_val max_val (memory cell)) scanned_cells \<and>
   memory_cells (OnDraw_float memory min_val max_val False True dialog) =
     filter (\<lambda>cell. in_interval min_val max_val (memory cell)) (memory_cells dialog) \<and>
   in_interval min_val max_val val = (float_ge val min_val \<and> float_lt val max_val) \<and>
   in_interval (Finite lo) (Finite hi) (Finite x) = (lo \<le> x \<and> x < hi) \<and>
   \<not> in_interval min_val max_val max_val"
proof -
  have "memory_cells (OnDraw_float memory min_val max_val True False dialog) =
     filter (\<lambda>cell. in_interval min_val max_val (memory cell)) scanned_cells"
    by (simp add: OnDraw_float_def new_search_filter)
  moreover have "memory_cells (OnDraw_float memory min_val max_val False True dialog) =
     filter (\<lambda>cell. in_interval min_val max_val (memory cell)) (memory_cells dialog)"
    by (simp add: OnDraw_float_def continue_loop_filter)
  moreover have "in_interval min_val max_val val
      = (float_ge val min_val \<and> float_lt val max_val)"
    by (simp add: in_interval_def)
  moreover have "\<not> in_interval min_val max_val max_val"
    by (simp add: in_interval_def float_lt_irrefl)
  ultimately show ?thesis
    by (simp only: in_interval_Finite simp_thms)
qed

end
